theory Spec2Isabelle
  imports Main "HOL-Library.AList"
begin

section \<open>Values shared by the components\<close>

text \<open>
  A parsed JSON value, as \<open>response.json()\<close> yields it. An object is its list of own
  properties in insertion order.
\<close>

datatype json =
    JNull
  | JBool bool
  | JNum int
  | JStr string
  | JArr "json list"
  | JObj "(string \<times> json) list"

text \<open>The two run-time errors the modelled code can raise.\<close>

datatype error = TypeError | ReferenceError

section \<open>The stage bar orchestrator (viewBarMachine)\<close>

subsection \<open>Data\<close>

text \<open>
  The object built by \<open>createStage\<close>. The field \<open>id\<close> is written \<open>id'\<close>;
  \<open>stageInfo\<close> is \<open>None\<close> where the source has \<open>undefined\<close>. An index is a
  JavaScript number, here an integer.
\<close>

record Stage =
  id' :: nat
  submitted :: bool
  stage :: string
  parameters :: "json list"
  stageInfo :: "json option"
  index :: int
  focusOnInit :: bool
  hideDelete :: bool

text \<open>An entry of the running bar's list: the stage object spread, plus \<open>ref\<close>.\<close>

record StageRef = Stage +
  ref :: nat

text \<open>
  The machine context. Before \<open>running\<close> is entered the list holds stage names,
  afterwards it holds entries, so the element type is a parameter.
\<close>

record 'a Bar =
  port :: nat
  stages :: "'a list"
  stageInfo_ctx :: "json option"

text \<open>
  What the effects of the machine leave behind: for every actor the context it was
  spawned with, and the supplies that \<open>uuid()\<close> and \<open>spawn\<close> draw fresh values from.
\<close>

record Env =
  spawned :: "nat \<rightharpoonup> Stage"
  nextUuid :: nat
  nextRef :: nat

type_synonym Machine = "StageRef Bar \<times> Env"

text \<open>
  The events the machine is sent. \<open>STAGE.SET_HIDE_DELETE\<close> carries its flag and the
  property \<open>to\<close>.
\<close>

datatype event =
    STAGE_ADD int
  | STAGE_COMMIT Stage
  | STAGE_DELETE Stage
  | STAGE_SET_HIDE_DELETE bool nat

subsection \<open>Constructors and effects\<close>

text \<open>\<open>uuid()\<close>: an identifier no earlier call has returned.\<close>

definition uuid :: "Env \<Rightarrow> nat \<times> Env" where
  "uuid env = (nextUuid env, env\<lparr>nextUuid := Suc (nextUuid env)\<rparr>)"

definition createStage ::
  "string \<Rightarrow> int \<Rightarrow> json option \<Rightarrow> bool \<Rightarrow> bool \<Rightarrow> Env \<Rightarrow> Stage \<times> Env" where
  "createStage stg idx info foc hide env =
     (case uuid env of (u, env') \<Rightarrow>
        (\<lparr>id' = u, submitted = False, stage = stg, parameters = [], stageInfo = info,
          index = idx, focusOnInit = foc, hideDelete = hide\<rparr>, env'))"

definition createBar :: "nat \<Rightarrow> string Bar" where
  "createBar p = \<lparr>port = p, stages = [], stageInfo_ctx = None\<rparr>"

text \<open>\<open>spawn(viewStageMachine.withContext(c))\<close>: a new actor, given the context \<open>c\<close>.\<close>

definition spawn :: "Stage \<Rightarrow> Env \<Rightarrow> nat \<times> Env" where
  "spawn c env =
     (nextRef env,
      env\<lparr>spawned := (spawned env)(nextRef env \<mapsto> c), nextRef := Suc (nextRef env)\<rparr>)"

text \<open>\<open>{ ...s, ref: r }\<close>\<close>

definition withRef :: "Stage \<Rightarrow> nat \<Rightarrow> StageRef" where
  "withRef s r =
     \<lparr>id' = id' s, submitted = submitted s, stage = stage s, parameters = parameters s,
      stageInfo = stageInfo s, index = index s, focusOnInit = focusOnInit s,
      hideDelete = hideDelete s, ref = r\<rparr>"

definition spawnStage :: "Stage \<Rightarrow> Env \<Rightarrow> StageRef \<times> Env" where
  "spawnStage newStage env =
     (case spawn newStage env of (r, env') \<Rightarrow> (withRef newStage r, env'))"

subsection \<open>initializing and running\<close>

text \<open>
  \<open>event.data.stages\<close>: reading a property of \<open>null\<close> raises; of an object it is the
  property or \<open>undefined\<close>; of any other JSON value it is \<open>undefined\<close>.
\<close>

fun data_stages :: "json \<Rightarrow> error + json option" where
  "data_stages JNull = Inl TypeError"
| "data_stages (JObj kvs) = Inr (map_of kvs ''stages'')"
| "data_stages _ = Inr None"

text \<open>
  The \<open>onDone\<close> assignment. Its second branch reads the identifier \<open>stages\<close>, which
  no scope of the module binds.
\<close>

definition onDone :: "string Bar \<Rightarrow> json \<Rightarrow> error + string Bar" where
  "onDone c d =
     (case data_stages d of
        Inl e \<Rightarrow> Inl e
      | Inr info \<Rightarrow>
          if length (stages c) = 0
          then Inr (c\<lparr>stages := [''''], stageInfo_ctx := info\<rparr>)
          else Inl ReferenceError)"

text \<open>The \<open>map\<close> of the entry action of \<open>running\<close>, from position \<open>i\<close> on.\<close>

fun spawnAll :: "string list \<Rightarrow> int \<Rightarrow> json option \<Rightarrow> Env \<Rightarrow> StageRef list \<times> Env" where
  "spawnAll [] i info env = ([], env)"
| "spawnAll (s # rest) i info env =
     (case createStage s i info False True env of (newStage, env1) \<Rightarrow>
      case spawnStage newStage env1 of (e, env2) \<Rightarrow>
      case spawnAll rest (i + 1) info env2 of (es, env3) \<Rightarrow> (e # es, env3))"

definition runningEntry :: "string Bar \<Rightarrow> Env \<Rightarrow> Machine" where
  "runningEntry c env =
     (case spawnAll (stages c) 0 (stageInfo_ctx c) env of
        (es, env') \<Rightarrow> (\<lparr>port = port c, stages = es, stageInfo_ctx = stageInfo_ctx c\<rparr>, env'))"

text \<open>From \<open>initializing\<close> to \<open>running\<close>, once the fetch has resolved with \<open>d\<close>.\<close>

definition initialize :: "string Bar \<Rightarrow> json \<Rightarrow> Env \<Rightarrow> error + Machine" where
  "initialize c d env =
     (case onDone c d of Inl e \<Rightarrow> Inl e | Inr c' \<Rightarrow> Inr (runningEntry c' env))"

subsection \<open>Events\<close>

text \<open>
  The position \<open>Array.prototype.slice\<close> makes of an argument: a negative one counts
  from the end, and the result is clamped to the array.
\<close>

definition relIndex :: "int \<Rightarrow> nat \<Rightarrow> nat" where
  "relIndex k len = (if k < 0 then nat (max (int len + k) 0) else min (nat k) len)"

text \<open>\<open>xs.slice(0, e)\<close> and \<open>xs.slice(s)\<close>\<close>

definition slice_to :: "'a list \<Rightarrow> int \<Rightarrow> 'a list" where
  "slice_to xs e = take (relIndex e (length xs)) xs"

definition slice_from :: "'a list \<Rightarrow> int \<Rightarrow> 'a list" where
  "slice_from xs s = drop (relIndex s (length xs)) xs"

text \<open>
  The event objects the two \<open>send\<close> actions build from the context the assignment
  has produced: the flag, and \<open>to: stages[0].ref\<close>. Reading \<open>ref\<close> of a missing
  first element raises.
\<close>

definition hideDeleteAfterAdd :: "StageRef Bar \<Rightarrow> error + bool \<times> nat" where
  "hideDeleteAfterAdd c =
     (case stages c of [] \<Rightarrow> Inl TypeError | s # _ \<Rightarrow> Inr (False, ref s))"

definition hideDeleteAfterDelete :: "StageRef Bar \<Rightarrow> error + bool \<times> nat" where
  "hideDeleteAfterDelete c =
     (case stages c of
        [] \<Rightarrow> Inl TypeError
      | s # _ \<Rightarrow> Inr (length (stages c) = 1, ref s))"

text \<open>
  Both actions call \<open>send\<close> with the event expression alone. The target of a \<open>send\<close>
  is named by its second argument; without one the event goes to the machine that sends
  it, and the \<open>to\<close> inside the event object is a property like \<open>hideDelete\<close>. The bar
  machine has no transition for \<open>STAGE.SET_HIDE_DELETE\<close>: the event leaves it as it is,
  and no actor receives anything.
\<close>

definition sendSelf :: "bool \<times> nat \<Rightarrow> Machine \<Rightarrow> error + Machine" where
  "sendSelf msg m = Inr m"

definition stageAdd :: "int \<Rightarrow> Machine \<Rightarrow> error + Machine" where
  "stageAdd i m =
     (case m of (c, env) \<Rightarrow>
      case createStage '''' i (stageInfo_ctx c) True False env of (newStage, env1) \<Rightarrow>
      case spawnStage newStage env1 of (e, env2) \<Rightarrow>
      let c' = c\<lparr>stages := slice_to (stages c) i @ [e] @ slice_from (stages c) i\<rparr>
      in (case hideDeleteAfterAdd c' of
            Inl er \<Rightarrow> Inl er
          | Inr msg \<Rightarrow> sendSelf msg (c', env2)))"

text \<open>
  \<open>newStages[e.stage.index]\<close> is \<open>undefined\<close> outside the array, and reading its
  \<open>ref\<close> raises.
\<close>

definition stageCommit :: "Stage \<Rightarrow> Machine \<Rightarrow> error + Machine" where
  "stageCommit st m =
     (case m of (c, env) \<Rightarrow>
        if 0 \<le> index st \<and> index st < int (length (stages c))
        then Inr (c\<lparr>stages :=
                (stages c)[nat (index st) := withRef st (ref (stages c ! nat (index st)))]\<rparr>,
              env)
        else Inl TypeError)"

definition stageDelete :: "Stage \<Rightarrow> Machine \<Rightarrow> error + Machine" where
  "stageDelete st m =
     (case m of (c, env) \<Rightarrow>
      let stages' = (case stages c of
                       [s] \<Rightarrow> [withRef (st\<lparr>hideDelete := True\<rparr>) (ref s)]
                     | _ \<Rightarrow> filter (\<lambda>s. id' s \<noteq> id' st) (stages c));
          c' = c\<lparr>stages := stages'\<rparr>
      in (case hideDeleteAfterDelete c' of
            Inl er \<Rightarrow> Inl er
          | Inr msg \<Rightarrow> sendSelf msg (c', env)))"

fun step :: "event \<Rightarrow> Machine \<Rightarrow> error + Machine" where
  "step (STAGE_ADD i) m = stageAdd i m"
| "step (STAGE_COMMIT st) m = stageCommit st m"
| "step (STAGE_DELETE st) m = stageDelete st m"
| "step (STAGE_SET_HIDE_DELETE h r) m = sendSelf (h, r) m"

text \<open>Events are processed one at a time; an error stops the run.\<close>

fun run :: "event list \<Rightarrow> Machine \<Rightarrow> error + Machine" where
  "run [] m = Inr m"
| "run (e # es) m = (case step e m of Inl er \<Rightarrow> Inl er | Inr m' \<Rightarrow> run es m')"

text \<open>A bar made by \<open>createBar\<close>, initialized, then fed the events.\<close>

definition env0 :: Env where
  "env0 = \<lparr>spawned = Map.empty, nextUuid = 0, nextRef = 0\<rparr>"

definition session :: "nat \<Rightarrow> json \<Rightarrow> event list \<Rightarrow> error + Machine" where
  "session p d es =
     (case initialize (createBar p) d env0 of Inl er \<Rightarrow> Inl er | Inr m \<Rightarrow> run es m)"

text \<open>What a run leaves in the list, as far as the claims look at it.\<close>

definition indexFields :: "error + Machine \<Rightarrow> error + int list" where
  "indexFields r = map_sum id (\<lambda>m. map index (stages (fst m))) r"

definition hideDeleteFields :: "error + Machine \<Rightarrow> error + bool list" where
  "hideDeleteFields r = map_sum id (\<lambda>m. map hideDelete (stages (fst m))) r"

definition stageNames :: "error + Machine \<Rightarrow> error + string list" where
  "stageNames r = map_sum id (\<lambda>m. map stage (stages (fst m))) r"

text \<open>
  The \<open>hideDelete\<close> the actor of the first entry of the list has from the orchestrator:
  the flag in the context it was spawned with, since the machine sends no actor anything.
\<close>

definition firstActorHideDelete :: "Machine \<Rightarrow> bool option" where
  "firstActorHideDelete m =
     (case stages (fst m) of
        [] \<Rightarrow> None
      | s # _ \<Rightarrow> map_option hideDelete (spawned (snd m) (ref s)))"

definition firstActorFlag :: "error + Machine \<Rightarrow> error + bool option" where
  "firstActorFlag r = map_sum id firstActorHideDelete r"

section \<open>The derived state graph (selectors)\<close>

text \<open>
  A JavaScript object used as a dictionary is the list of its own properties; a label
  record is such an object with string values.
\<close>

type_synonym 'v obj = "(string \<times> 'v) list"

type_synonym label = "string obj"

record Dataset =
  defaultMaskTargets :: "string obj option"
  maskTargets :: "string obj obj option"

record StateDescription =
  dataset :: "Dataset option"
  selectedLabels :: "label list option"
  selected_labels :: "label list option"

text \<open>The root snapshot: the atoms the modelled code reads and writes.\<close>

record RootSnapshot =
  view :: json
  viewCls :: json
  sampleFields :: json
  frameFields :: json
  stateDescription :: "StateDescription option"
  stateSubscription :: string
  modal :: json
  hiddenLabels :: "label obj"

text \<open>\<open>{ ...undefined }\<close> is the object without properties.\<close>

definition noProperties :: StateDescription where
  "noProperties = \<lparr>dataset = None, selectedLabels = None, selected_labels = None\<rparr>"

text \<open>\<open>Object.fromEntries\<close>: a later entry with the same key replaces the value.\<close>

definition fromEntries :: "(string \<times> 'v) list \<Rightarrow> 'v obj" where
  "fromEntries es = foldl (\<lambda>acc kv. AList.update (fst kv) (snd kv) acc) [] es"

text \<open>\<open>l.labelId\<close> as a property key; a missing property gives the key \<open>undefined\<close>.\<close>

definition labelId :: "label \<Rightarrow> string" where
  "labelId l = (case map_of l ''labelId'' of None \<Rightarrow> ''undefined'' | Some k \<Rightarrow> k)"

text \<open>
  \<open>targets\<close> reads \<open>dataset\<close> of the state description without guarding it, and
  replaces a missing mapping by the empty object.
\<close>

definition targets :: "RootSnapshot \<Rightarrow> error + string obj \<times> string obj obj" where
  "targets snap =
     (case stateDescription snap of
        None \<Rightarrow> Inl TypeError
      | Some sd \<Rightarrow>
          Inr (case dataset sd of
                 None \<Rightarrow> ([], [])
               | Some ds \<Rightarrow>
                   (case defaultMaskTargets ds of None \<Rightarrow> [] | Some t \<Rightarrow> t,
                    case maskTargets ds of None \<Rightarrow> [] | Some t \<Rightarrow> t)))"

text \<open>
  Behind every object parsed from JSON stands \<open>Object.prototype\<close>; the operator \<open>in\<close>
  and a property read see its properties too. These are their names.
\<close>

definition objectPrototype :: "string list" where
  "objectPrototype =
     [''constructor'', ''__defineGetter__'', ''__defineSetter__'', ''hasOwnProperty'',
      ''__lookupGetter__'', ''__lookupSetter__'', ''isPrototypeOf'',
      ''propertyIsEnumerable'', ''toString'', ''valueOf'', ''__proto__'',
      ''toLocaleString'']"

text \<open>
  What a property read yields: \<open>undefined\<close>, a string of a mapping, or a value of the
  runtime (a function or an object), named by the path of properties that leads to it
  from \<open>Object.prototype\<close> and not evaluated further.
\<close>

datatype jsval = Undefined | Str string | Native "string list"

text \<open>\<open>k in o\<close>\<close>

definition hasProperty :: "'v obj \<Rightarrow> string \<Rightarrow> bool" where
  "hasProperty o' k \<longleftrightarrow> k \<in> set (map fst o') \<or> k \<in> set objectPrototype"

text \<open>\<open>m[k]\<close> on a mapping with string values: an own property wins.\<close>

definition readMapping :: "string obj \<Rightarrow> string \<Rightarrow> jsval" where
  "readMapping m k =
     (case map_of m k of
        Some v \<Rightarrow> Str v
      | None \<Rightarrow> if k \<in> set objectPrototype then Native [k] else Undefined)"

text \<open>
  A property read on a value of the runtime. None of these functions and objects has a
  property whose name is made of digits only, so such a read is \<open>undefined\<close>.
\<close>

definition onlyDigits :: "string \<Rightarrow> bool" where
  "onlyDigits k \<longleftrightarrow> k \<noteq> [] \<and> list_all (\<lambda>c. c \<in> set ''0123456789'') k"

definition readNative :: "string list \<Rightarrow> string \<Rightarrow> jsval" where
  "readNative path k = (if onlyDigits k then Undefined else Native (path @ [k]))"

text \<open>
  \<open>getTarget\<close>: \<open>field in fields\<close>, then \<open>fields[field][target]\<close> or
  \<open>defaults[target]\<close>.
\<close>

definition getTarget :: "RootSnapshot \<Rightarrow> error + (string \<Rightarrow> string \<Rightarrow> jsval)" where
  "getTarget snap =
     (case targets snap of
        Inl e \<Rightarrow> Inl e
      | Inr (defaults, fields') \<Rightarrow>
          Inr (\<lambda>field target.
                 if hasProperty fields' field
                 then (case map_of fields' field of
                         Some m \<Rightarrow> readMapping m target
                       | None \<Rightarrow> readNative [field] target)
                 else readMapping defaults target))"

text \<open>The function \<open>getTarget\<close> returns, applied.\<close>

definition getTargetAt :: "RootSnapshot \<Rightarrow> string \<Rightarrow> string \<Rightarrow> error + jsval" where
  "getTargetAt snap field target = map_sum id (\<lambda>f. f field target) (getTarget snap)"

definition selectedLabels_get :: "RootSnapshot \<Rightarrow> label obj" where
  "selectedLabels_get snap =
     (let labels = (case stateDescription snap of
                      None \<Rightarrow> []
                    | Some sd \<Rightarrow> (case selectedLabels sd of None \<Rightarrow> [] | Some ls \<Rightarrow> ls))
      in fromEntries (map (\<lambda>l. (labelId l, l)) labels))"

text \<open>
  The setter returns the new snapshot and the message handed to \<open>socket.send\<close>
  (its type and the \<open>selected_labels\<close> argument).
\<close>

definition selectedLabels_set ::
  "RootSnapshot \<Rightarrow> label obj \<Rightarrow> RootSnapshot \<times> string \<times> label list" where
  "selectedLabels_set snap v =
     (let state = stateDescription snap;
          labels = map (\<lambda>(label_id, label). AList.update ''label_id'' label_id label) v;
          newState = (case state of None \<Rightarrow> noProperties | Some sd \<Rightarrow> sd)
                       \<lparr>selected_labels := Some labels\<rparr>
      in (snap\<lparr>stateDescription := Some newState\<rparr>, (''set_selected_labels'', labels)))"

definition selectedLabelIds :: "RootSnapshot \<Rightarrow> string set" where
  "selectedLabelIds snap = set (map fst (selectedLabels_get snap))"

subsection \<open>The service metadata poll\<close>

text \<open>What one \<open>await (await fetch(...)).json()\<close> does: it throws, or yields a body.\<close>

datatype fetched = Rejected | Resolved json

text \<open>JavaScript truthiness of a JSON value.\<close>

fun truthy :: "json \<Rightarrow> bool" where
  "truthy JNull = False"
| "truthy (JBool b) = b"
| "truthy (JNum n) = (n \<noteq> 0)"
| "truthy (JStr s) = (s \<noteq> [])"
| "truthy (JArr _) = True"
| "truthy (JObj _) = True"

text \<open>
  The \<open>do ... while\<close> loop, from attempt \<open>k\<close> on: \<open>net\<close> gives the outcome of each
  attempt, \<open>response\<close> is the variable of that name, \<open>waited\<close> the milliseconds of
  timeouts awaited so far. The result is the value returned, the number of fetches
  made and the time waited. A loop that never ends is \<open>None\<close>.
\<close>

partial_function (option) fiftyone_loop ::
  "(nat \<Rightarrow> fetched) \<Rightarrow> nat \<Rightarrow> json \<Rightarrow> nat \<Rightarrow> (json \<times> nat \<times> nat) option" where
  "fiftyone_loop net k response waited =
     (let response' = (case net k of Rejected \<Rightarrow> response | Resolved j \<Rightarrow> j)
      in if truthy response' then Some (response', Suc k, waited)
         else if response' = JNull then fiftyone_loop net (Suc k) response' (waited + 2000)
         else Some (response', Suc k, waited + 2000))"

declare fiftyone_loop.simps [code]

definition fiftyone :: "(nat \<Rightarrow> fetched) \<Rightarrow> (json \<times> nat \<times> nat) option" where
  "fiftyone net = fiftyone_loop net 0 JNull 0"

text \<open>An attempt leaves \<open>response\<close> null when it throws or its body is \<open>null\<close>.\<close>

definition nullAttempt :: "fetched \<Rightarrow> bool" where
  "nullAttempt f = (case f of Rejected \<Rightarrow> True | Resolved j \<Rightarrow> j = JNull)"

section \<open>Session sync (useSetView)\<close>

text \<open>The response of the commit mutation, as \<open>onCompleted\<close> destructures it.\<close>

datatype responseDataset =
  ResponseDataset (dsViewCls: json) (dsFrameFields: json) (dsSampleFields: json)

datatype setViewResponse =
  SetViewResponse (setViewView: json) (setViewDataset: responseDataset)

text \<open>The four \<open>set\<close> calls of the transaction body.\<close>

datatype atomWrite =
    SetViewCls json
  | SetSampleFields json
  | SetFrameFields json
  | SetView json

fun set_atom :: "atomWrite \<Rightarrow> RootSnapshot \<Rightarrow> RootSnapshot" where
  "set_atom (SetViewCls v) snap = snap\<lparr>viewCls := v\<rparr>"
| "set_atom (SetSampleFields v) snap = snap\<lparr>sampleFields := v\<rparr>"
| "set_atom (SetFrameFields v) snap = snap\<lparr>frameFields := v\<rparr>"
| "set_atom (SetView v) snap = snap\<lparr>view := v\<rparr>"

text \<open>The body of \<open>setter\<close>: its writes, in the order of the source.\<close>

definition setter_writes :: "json \<Rightarrow> json \<Rightarrow> json \<Rightarrow> json \<Rightarrow> atomWrite list" where
  "setter_writes v sf ff vc = [SetViewCls vc, SetSampleFields sf, SetFrameFields ff, SetView v]"

text \<open>
  The store the atoms live in: the snapshot committed last, and the snapshots committed
  before it, latest first. A reader (a selector, a component) sees committed snapshots
  only, and may see each of them.
\<close>

record Store =
  current :: RootSnapshot
  earlier :: "RootSnapshot list"

definition observable :: "Store \<Rightarrow> RootSnapshot list" where
  "observable st = current st # earlier st"

definition commitSnapshot :: "RootSnapshot \<Rightarrow> Store \<Rightarrow> Store" where
  "commitSnapshot snap st = \<lparr>current = snap, earlier = current st # earlier st\<rparr>"

text \<open>
  \<open>useRecoilTransaction_UNSTABLE\<close>: the writes of the body are applied in order to a
  copy of the current snapshot, and what they leave is committed once.
\<close>

definition transaction :: "atomWrite list \<Rightarrow> Store \<Rightarrow> Store" where
  "transaction ws st = commitSnapshot (foldl (\<lambda>s w. set_atom w s) (current st) ws) st"

text \<open>
  \<open>onCompleted\<close>. \<open>collapseFields\<close> is imported from outside the sources and is a
  parameter here.
\<close>

definition onCompleted ::
  "(json \<Rightarrow> json) \<Rightarrow> setViewResponse \<Rightarrow> Store \<Rightarrow> Store" where
  "onCompleted collapseFields r st =
     (case r of SetViewResponse v (ResponseDataset vc ff sf) \<Rightarrow>
        transaction (setter_writes v (collapseFields sf) (collapseFields ff) vc) st)"

section \<open>Running examples\<close>

text \<open>The catalog of the spec's example, and a stage an actor might submit.\<close>

definition exampleCatalog :: json where
  "exampleCatalog =
     JObj [(''stages'', JArr [JObj [(''name'', JStr ''match'')],
                              JObj [(''name'', JStr ''limit'')]])]"

definition matchStage :: Stage where
  "matchStage =
     \<lparr>id' = 0, submitted = True, stage = ''match'', parameters = [JStr ''x''],
      stageInfo = None, index = 0, focusOnInit = False, hideDelete = False\<rparr>"

definition limitStage :: Stage where
  "limitStage =
     \<lparr>id' = 7, submitted = True, stage = ''limit'', parameters = [JNum 5],
      stageInfo = None, index = 1, focusOnInit = False, hideDelete = False\<rparr>"

text \<open>A running bar of two entries, with the actors at 0 and 1.\<close>

definition twoStageBar :: "StageRef Bar" where
  "twoStageBar =
     \<lparr>port = 5151,
      stages = [withRef matchStage 0, withRef (matchStage\<lparr>id' := 1, index := 1\<rparr>) 1],
      stageInfo_ctx = None\<rparr>"

definition oneStageBar :: "StageRef Bar" where
  "oneStageBar = \<lparr>port = 5151, stages = [withRef matchStage 0], stageInfo_ctx = None\<rparr>"

text \<open>A snapshot with mask targets and no selected labels.\<close>

definition exampleSnapshot :: RootSnapshot where
  "exampleSnapshot =
     \<lparr>view = JArr [], viewCls = JNull, sampleFields = JArr [], frameFields = JArr [],
      stateDescription =
        Some \<lparr>dataset =
                Some \<lparr>defaultMaskTargets = Some [(''1'', ''background'')],
                      maskTargets = Some [(''ground_truth'', [(''1'', ''cat'')])]\<rparr>,
              selectedLabels = None, selected_labels = None\<rparr>,
      stateSubscription = ''sub'', modal = JNull, hiddenLabels = []\<rparr>"

text \<open>A store that has seen one snapshot before the example, and a response.\<close>

definition exampleStore :: Store where
  "exampleStore =
     \<lparr>current = exampleSnapshot, earlier = [exampleSnapshot\<lparr>stateDescription := None\<rparr>]\<rparr>"

definition exampleResponse :: setViewResponse where
  "exampleResponse =
     SetViewResponse (JArr [JStr ''Limit''])
       (ResponseDataset (JStr ''fiftyone.core.view.DatasetView'') (JArr [JStr ''frames''])
          (JArr [JStr ''filepath'']))"

text \<open>A network on which the third fetch is the first to bring a body.\<close>

definition thirdTime :: "nat \<Rightarrow> fetched" where
  "thirdTime i =
     (if i = 0 then Rejected
      else if i = 1 then Resolved JNull
      else Resolved (JObj [(''teams'', JObj [])]))"

section \<open>Properties of the stage bar orchestrator\<close>

lemmas bar_defs =
  session_def initialize_def onDone_def createBar_def runningEntry_def env0_def
  createStage_def uuid_def spawnStage_def spawn_def withRef_def stageAdd_def stageCommit_def
  stageDelete_def slice_to_def slice_from_def relIndex_def hideDeleteAfterAdd_def
  hideDeleteAfterDelete_def sendSelf_def

subsection \<open>Index fields\<close>

text \<open>
  C1: after each \<open>STAGE.ADD\<close> and \<open>STAGE.DELETE\<close> the \<open>index\<close> field of every
  stage of the list should equal its position. The entry action of \<open>running\<close> numbers
  the stages by position and \<open>STAGE.COMMIT\<close> writes at \<open>stage.index\<close>, but neither
  assignment of \<open>STAGE.ADD\<close> and \<open>STAGE.DELETE\<close> renumbers the stages it keeps.
  On the one-stage bar, adding at 0 leaves the index fields 0, 0; adding at 1 and
  deleting the first stage leaves the single index field 1.
\<close>

theorem add_delete_leave_stale_index:
  "indexFields (session 5151 exampleCatalog [STAGE_ADD 0]) = Inr [0, 0] \<and>
   indexFields (session 5151 exampleCatalog [STAGE_ADD 1, STAGE_DELETE matchStage]) = Inr [1]"
  by (simp add: indexFields_def exampleCatalog_def matchStage_def bar_defs)

subsection \<open>The delete affordance of the first stage\<close>

text \<open>
  C2: a bar with exactly one stage should have that stage's \<open>hideDelete\<close> true, a bar
  with two or more the first stage's \<open>hideDelete\<close> false. The orchestrator builds the
  event that would say so after each add and delete, but sends it to itself, where
  nothing handles it; the flag in the list is written only when the only stage is
  deleted. On the fresh one-stage bar, adding
  a stage behind the first leaves two stages, the first with \<open>hideDelete\<close> true, in the
  list and in the context of its actor; adding a stage in front and deleting the old one
  leaves one stage with \<open>hideDelete\<close> false, in the list and in the context of its actor.
\<close>

theorem first_stage_hideDelete_not_kept:
  "hideDeleteFields (session 5151 exampleCatalog [STAGE_ADD 1]) = Inr [True, False] \<and>
   firstActorFlag (session 5151 exampleCatalog [STAGE_ADD 1]) = Inr (Some True) \<and>
   hideDeleteFields (session 5151 exampleCatalog [STAGE_ADD 0, STAGE_DELETE matchStage])
     = Inr [False] \<and>
   firstActorFlag (session 5151 exampleCatalog [STAGE_ADD 0, STAGE_DELETE matchStage])
     = Inr (Some False)"
  by (simp add: hideDeleteFields_def firstActorFlag_def firstActorHideDelete_def
      exampleCatalog_def matchStage_def bar_defs)

text \<open>
  The events the orchestrator sends itself are the ones the claim asks for: after an add
  the flag is false, after a delete it is true exactly if one stage is left, and \<open>to\<close>
  is the actor of the first stage.
\<close>

lemma hideDelete_events:
  "stages c = s # rest \<Longrightarrow>
   hideDeleteAfterAdd c = Inr (False, ref s) \<and>
   hideDeleteAfterDelete c = Inr (rest = [], ref s)"
  by (simp add: hideDeleteAfterAdd_def hideDeleteAfterDelete_def)

subsection \<open>Deleting the only stage\<close>

text \<open>
  C3, as stated, has the only stage replaced by a blank one. The orchestrator puts the
  stage carried by the event into the list: deleting with a stage named \<open>match\<close> leaves
  an entry named \<open>match\<close>.
\<close>

theorem delete_sole_stage_counterexample:
  "stageNames (session 5151 exampleCatalog [STAGE_DELETE matchStage]) = Inr [''match'']"
  by (simp add: stageNames_def exampleCatalog_def matchStage_def bar_defs)

text \<open>
  C3, amended: for every bar whose list has exactly one stage, \<open>STAGE.DELETE\<close> leaves the
  list at length 1; its entry carries the fields of the event's stage with \<open>hideDelete\<close>
  set to true and the actor reference that was at position 0. The list does not become
  empty.
\<close>

theorem delete_sole_stage:
  "stages c = [s] \<Longrightarrow>
   \<exists>e env'. stageDelete st (c, env) = Inr (c\<lparr>stages := [e]\<rparr>, env') \<and>
     Stage.truncate e = st\<lparr>hideDelete := True\<rparr> \<and> hideDelete e \<and> ref e = ref s"
proof -
  assume c: "stages c = [s]"
  let ?e = "withRef (st\<lparr>hideDelete := True\<rparr>) (ref s)"
  have "stageDelete st (c, env) = Inr (c\<lparr>stages := [?e]\<rparr>, env)"
    by (simp add: stageDelete_def hideDeleteAfterDelete_def sendSelf_def c withRef_def)
  moreover have "Stage.truncate ?e = st\<lparr>hideDelete := True\<rparr>"
    by (simp add: withRef_def Stage.defs)
  moreover have "hideDelete ?e" "ref ?e = ref s"
    by (simp_all add: withRef_def)
  ultimately show ?thesis by blast
qed

text \<open>The amended C3 on the one-stage bar, deleting with the stage \<open>limit\<close>.\<close>

theorem delete_sole_stage_witness:
  "stages oneStageBar = [withRef matchStage 0] \<and>
   (\<exists>e env'. stageDelete limitStage (oneStageBar, env0) = Inr (oneStageBar\<lparr>stages := [e]\<rparr>, env') \<and>
      Stage.truncate e = limitStage\<lparr>hideDelete := True\<rparr> \<and> hideDelete e \<and> ref e = 0)"
proof -
  have h: "stages oneStageBar = [withRef matchStage 0]"
    by (simp add: oneStageBar_def)
  from delete_sole_stage [OF h, of limitStage env0] h show ?thesis
    by (simp add: withRef_def)
qed

subsection \<open>Committing a stage\<close>

text \<open>
  C5: for every running bar and every \<open>STAGE.COMMIT {stage}\<close> whose \<open>stage.index\<close> is a
  position of the list, the event succeeds; afterwards the entry at \<open>stage.index\<close> holds
  the submitted stage's fields and the actor reference that was at that position, every
  other entry is unchanged, and so is the length of the list; no actor is spawned.
\<close>

theorem commit_frame:
  "0 \<le> index st \<Longrightarrow> index st < int (length (stages c)) \<Longrightarrow>
   \<exists>c'. stageCommit st (c, env) = Inr (c', env) \<and>
     port c' = port c \<and> stageInfo_ctx c' = stageInfo_ctx c \<and>
     length (stages c') = length (stages c) \<and>
     Stage.truncate (stages c' ! nat (index st)) = st \<and>
     ref (stages c' ! nat (index st)) = ref (stages c ! nat (index st)) \<and>
     (\<forall>j < length (stages c). j \<noteq> nat (index st) \<longrightarrow> stages c' ! j = stages c ! j)"
  by (simp add: stageCommit_def withRef_def Stage.defs)

text \<open>C5 on the two-stage bar: committing \<open>limit\<close> at position 1.\<close>

theorem commit_frame_witness:
  "0 \<le> index limitStage \<and> index limitStage < int (length (stages twoStageBar)) \<and>
   (\<exists>c'. stageCommit limitStage (twoStageBar, env0) = Inr (c', env0) \<and>
      length (stages c') = 2 \<and>
      Stage.truncate (stages c' ! 1) = limitStage \<and>
      ref (stages c' ! 1) = 1 \<and>
      stages c' ! 0 = withRef matchStage 0)"
proof -
  have a: "0 \<le> index limitStage" and b: "index limitStage < int (length (stages twoStageBar))"
    by (simp_all add: limitStage_def twoStageBar_def)
  have i: "nat (index limitStage) = 1" by (simp add: limitStage_def)
  from commit_frame [OF a b, of env0] obtain c'
    where "stageCommit limitStage (twoStageBar, env0) = Inr (c', env0)"
      and "length (stages c') = length (stages twoStageBar)"
      and "Stage.truncate (stages c' ! nat (index limitStage)) = limitStage"
      and "ref (stages c' ! nat (index limitStage)) = ref (stages twoStageBar ! nat (index limitStage))"
      and "\<forall>j < length (stages twoStageBar). j \<noteq> nat (index limitStage) \<longrightarrow>
             stages c' ! j = stages twoStageBar ! j"
    by blast
  then have "stageCommit limitStage (twoStageBar, env0) = Inr (c', env0) \<and>
      length (stages c') = 2 \<and>
      Stage.truncate (stages c' ! 1) = limitStage \<and>
      ref (stages c' ! 1) = 1 \<and>
      stages c' ! 0 = withRef matchStage 0"
    unfolding i by (simp add: twoStageBar_def withRef_def)
  then show ?thesis using a b by blast
qed

subsection \<open>Initializing an empty bar\<close>

text \<open>
  C6: for every bar constructed with zero stages, once the descriptor fetch has resolved
  with a body whose \<open>stages\<close> can be read and the machine has entered \<open>running\<close>, the
  list holds exactly one stage: blank, at index 0, with \<open>focusOnInit = false\<close> and
  \<open>hideDelete = true\<close>, holding the fetched catalog; its actor is spawned with the
  same stage.
\<close>

theorem initialize_empty_bar:
  "stages b = [] \<Longrightarrow> data_stages d = Inr info \<Longrightarrow>
   \<exists>e env'. initialize b d env =
        Inr (\<lparr>port = port b, stages = [e], stageInfo_ctx = info\<rparr>, env') \<and>
     stage e = '''' \<and> parameters e = [] \<and> \<not> submitted e \<and> index e = 0 \<and>
     \<not> focusOnInit e \<and> hideDelete e \<and> stageInfo e = info \<and>
     spawned env' (ref e) = Some (Stage.truncate e)"
  by (simp add: initialize_def onDone_def runningEntry_def createStage_def uuid_def
      spawnStage_def spawn_def withRef_def Stage.defs)

text \<open>C6 on the spec's example: a bar from \<open>createBar\<close> and the catalog of two kinds.\<close>

theorem initialize_empty_bar_witness:
  "stages (createBar 5151) = [] \<and>
   data_stages exampleCatalog =
     Inr (Some (JArr [JObj [(''name'', JStr ''match'')], JObj [(''name'', JStr ''limit'')]])) \<and>
   (\<exists>e env'. initialize (createBar 5151) exampleCatalog env0 =
        Inr (\<lparr>port = 5151, stages = [e],
              stageInfo_ctx = Some (JArr [JObj [(''name'', JStr ''match'')],
                                          JObj [(''name'', JStr ''limit'')]])\<rparr>, env') \<and>
      stage e = '''' \<and> index e = 0 \<and> \<not> focusOnInit e \<and> hideDelete e \<and>
      stageInfo e = Some (JArr [JObj [(''name'', JStr ''match'')],
                                JObj [(''name'', JStr ''limit'')]]))"
proof -
  have a: "stages (createBar 5151) = []" by (simp add: createBar_def)
  have b: "data_stages exampleCatalog =
     Inr (Some (JArr [JObj [(''name'', JStr ''match'')], JObj [(''name'', JStr ''limit'')]]))"
    by (simp add: exampleCatalog_def)
  have p: "port (createBar 5151) = 5151" by (simp add: createBar_def)
  from initialize_empty_bar [OF a b, of env0] a b show ?thesis
    unfolding p by blast
qed

section \<open>Properties of the selectors\<close>

subsection \<open>Mask targets\<close>

text \<open>
  C9: the function \<open>getTarget\<close> returns should yield the per-field mapping's value for
  the target when the field is a key of the per-field mapping, and the default mapping's
  value otherwise. The code tests \<open>field in fields\<close>, which is also true of every name
  \<open>Object.prototype\<close> has. On the example snapshot the per-field mapping has the one
  key \<open>ground_truth\<close> and the defaults map \<open>1\<close> to \<open>background\<close>; for the field
  \<open>toString\<close> and the target \<open>1\<close> the function yields \<open>undefined\<close>.
\<close>

theorem getTarget_inherited_field:
  "targets exampleSnapshot =
     Inr ([(''1'', ''background'')], [(''ground_truth'', [(''1'', ''cat'')])]) \<and>
   getTargetAt exampleSnapshot ''toString'' ''1'' = Inr Undefined \<and>
   getTargetAt exampleSnapshot ''predictions'' ''1'' = Inr (Str ''background'')"
  by (simp add: getTargetAt_def getTarget_def targets_def exampleSnapshot_def hasProperty_def
      readMapping_def readNative_def onlyDigits_def objectPrototype_def)

text \<open>
  For a field name and a target key that \<open>Object.prototype\<close> does not have, the
  function does what the claim says.
\<close>

lemma getTarget_lookup_own:
  assumes "targets snap = Inr (defaults, fields')"
    and "field \<notin> set objectPrototype" and "target \<notin> set objectPrototype"
  shows "\<exists>f. getTarget snap = Inr f \<and>
     f field target =
       (case map_of fields' field of
          None \<Rightarrow> (case map_of defaults target of None \<Rightarrow> Undefined | Some v \<Rightarrow> Str v)
        | Some m \<Rightarrow> (case map_of m target of None \<Rightarrow> Undefined | Some v \<Rightarrow> Str v))"
proof -
  have own: "field \<in> set (map fst fields') \<longleftrightarrow> map_of fields' field \<noteq> None"
    by (simp add: map_of_eq_None_iff)
  show ?thesis
    using assms own
    by (auto simp: getTarget_def hasProperty_def readMapping_def split: option.splits)
qed

text \<open>
  \<open>targets\<close> yields its two mappings exactly when the state description is present;
  without one, reading \<open>dataset\<close> raises and \<open>getTarget\<close> returns no function.
\<close>

lemma targets_defined:
  "stateDescription snap = Some sd \<Longrightarrow> \<exists>d f. targets snap = Inr (d, f)"
  by (simp add: targets_def split: option.splits)

lemma getTarget_absent:
  "stateDescription snap = None \<Longrightarrow> getTarget snap = Inl TypeError"
  by (simp add: getTarget_def targets_def)

subsection \<open>Selected labels\<close>

text \<open>
  C10: for every root snapshot whose state description is absent or carries no
  \<open>selectedLabels\<close> sequence, the \<open>selectedLabels\<close> projection is the empty mapping,
  and \<open>selectedLabelIds\<close> is the empty set.
\<close>

theorem selectedLabels_absent:
  "(case stateDescription snap of None \<Rightarrow> True | Some sd \<Rightarrow> selectedLabels sd = None) \<Longrightarrow>
   selectedLabels_get snap = [] \<and> selectedLabelIds snap = {}"
  by (auto simp: selectedLabels_get_def selectedLabelIds_def fromEntries_def split: option.splits)

text \<open>C10 on the example snapshot, and on the same snapshot without a state description.\<close>

theorem selectedLabels_absent_witness:
  "selectedLabels_get exampleSnapshot = [] \<and> selectedLabelIds exampleSnapshot = {} \<and>
   selectedLabels_get (exampleSnapshot\<lparr>stateDescription := None\<rparr>) = [] \<and>
   selectedLabelIds (exampleSnapshot\<lparr>stateDescription := None\<rparr>) = {}"
  using selectedLabels_absent [of exampleSnapshot]
    selectedLabels_absent [of "exampleSnapshot\<lparr>stateDescription := None\<rparr>"]
  by (simp add: exampleSnapshot_def)

text \<open>
  The setter stores the labels under \<open>selected_labels\<close>, which the getter never reads:
  a write does not change what is read.
\<close>

lemma selectedLabels_set_unread:
  "selectedLabels_get (fst (selectedLabels_set snap v)) = selectedLabels_get snap"
  by (simp add: selectedLabels_get_def selectedLabels_set_def Let_def noProperties_def
      split: option.splits)

text \<open>
  C4: writing a mapping through the \<open>selectedLabels\<close> setter and reading it back should
  give the mapping written. The setter writes the sequence to the property
  \<open>selected_labels\<close> with each key under \<open>label_id\<close>, while the getter reads the
  property \<open>selectedLabels\<close> and takes each key from \<open>labelId\<close>. On the example
  snapshot, writing a mapping with the one key \<open>a\<close> and reading back gives the empty
  mapping; the label written sits under \<open>selected_labels\<close>.
\<close>

theorem selectedLabels_write_not_read_back:
  "selectedLabels_get
     (fst (selectedLabels_set exampleSnapshot [(''a'', [(''field'', ''f''), (''sampleId'', ''s'')])]))
     = [] \<and>
   map_option selected_labels
     (stateDescription
        (fst (selectedLabels_set exampleSnapshot
                [(''a'', [(''field'', ''f''), (''sampleId'', ''s'')])])))
     = Some (Some [[(''field'', ''f''), (''sampleId'', ''s''), (''label_id'', ''a'')]])"
  by (simp add: selectedLabels_get_def selectedLabels_set_def exampleSnapshot_def
      fromEntries_def Let_def)

subsection \<open>The service metadata poll\<close>

lemma loop_null_step:
  "nullAttempt (net k) \<Longrightarrow>
   fiftyone_loop net k JNull w = fiftyone_loop net (Suc k) JNull (w + 2000)"
  by (subst fiftyone_loop.simps) (auto simp: nullAttempt_def split: fetched.splits)

lemma loop_skip:
  "(\<forall>i<n. nullAttempt (net (k + i))) \<Longrightarrow>
   fiftyone_loop net k JNull w = fiftyone_loop net (k + n) JNull (w + 2000 * n)"
proof (induction n arbitrary: k w)
  case 0
  then show ?case by simp
next
  case (Suc n)
  have first: "nullAttempt (net k)"
    using Suc.prems [rule_format, of 0] by simp
  have rest: "\<forall>i<n. nullAttempt (net (Suc k + i))"
  proof (intro allI impI)
    fix i assume "i < n"
    then show "nullAttempt (net (Suc k + i))"
      using Suc.prems [rule_format, of "Suc i"] by simp
  qed
  have eq: "w + 2000 + 2000 * n = w + 2000 * Suc n" by simp
  have "fiftyone_loop net k JNull w = fiftyone_loop net (Suc k) JNull (w + 2000)"
    using first by (rule loop_null_step)
  also have "\<dots> = fiftyone_loop net (Suc k + n) JNull (w + 2000 + 2000 * n)"
    using rest by (rule Suc.IH)
  also have "\<dots> = fiftyone_loop net (k + Suc n) JNull (w + 2000 * Suc n)"
    by (simp only: eq add_Suc_right add_Suc)
  finally show ?case .
qed

lemma loop_hit:
  "net k = Resolved v \<Longrightarrow> v \<noteq> JNull \<Longrightarrow>
   fiftyone_loop net k JNull w = Some (v, Suc k, if truthy v then w else w + 2000)"
  by (subst fiftyone_loop.simps) simp

lemma fiftyone_returns:
  assumes "\<forall>i<k. nullAttempt (net i)" and "net k = Resolved v" and "v \<noteq> JNull"
  shows "fiftyone net = Some (v, Suc k, 2000 * k + (if truthy v then 0 else 2000))"
proof -
  have "fiftyone_loop net 0 JNull 0 = fiftyone_loop net (0 + k) JNull (0 + 2000 * k)"
    by (rule loop_skip) (simp add: assms(1))
  also have "\<dots> = Some (v, Suc k, if truthy v then 2000 * k else 2000 * k + 2000)"
    using loop_hit [of net k v "2000 * k"] assms(2,3) by simp
  finally show ?thesis by (simp add: fiftyone_def)
qed

lemma loop_some_not_null:
  "fiftyone_loop net k r w = Some y \<Longrightarrow> r = JNull \<longrightarrow> (\<exists>i\<ge>k. \<not> nullAttempt (net i))"
proof (induct net k r w y rule: fiftyone_loop.raw_induct [rotated 1, consumes 1, case_names step])
  case (step f net k r w y)
  show ?case
  proof
    assume r: "r = JNull"
    show "\<exists>i\<ge>k. \<not> nullAttempt (net i)"
    proof (cases "nullAttempt (net k)")
      case False
      then show ?thesis by blast
    next
      case True
      have resp: "(case net k of Rejected \<Rightarrow> JNull | Resolved j \<Rightarrow> j) = JNull"
        using True by (simp add: nullAttempt_def split: fetched.splits)
      have "f net (Suc k) JNull (w + 2000) = Some y"
        using step(2) unfolding r Let_def resp by simp
      then have "\<exists>i\<ge>Suc k. \<not> nullAttempt (net i)"
        using step(1) by simp
      then obtain i where "Suc k \<le> i" and "\<not> nullAttempt (net i)" by (elim exE conjE)
      then have "k \<le> i \<and> \<not> nullAttempt (net i)" by simp
      then show ?thesis by (rule exI)
    qed
  qed
qed

lemma fiftyone_never:
  assumes "\<forall>i. nullAttempt (net i)"
  shows "fiftyone net = None"
proof (cases "fiftyone net")
  case None
  then show ?thesis .
next
  case (Some y)
  then show ?thesis
    using loop_some_not_null [of net 0 JNull 0 y] assms by (simp add: fiftyone_def)
qed

lemma not_nullAttempt: "\<not> nullAttempt f \<longleftrightarrow> (\<exists>v. f = Resolved v \<and> v \<noteq> JNull)"
  by (cases f) (simp_all add: nullAttempt_def)

lemma fiftyone_returned:
  assumes "fiftyone net = Some (r, n, w)"
  shows "r \<noteq> JNull \<and> (\<exists>j. n = Suc j \<and> net j = Resolved r \<and> (\<forall>i<j. nullAttempt (net i)))"
proof -
  have ex: "\<exists>i. \<not> nullAttempt (net i)"
    using assms fiftyone_never [of net] by auto
  define j where "j = (LEAST i. \<not> nullAttempt (net i))"
  have j: "\<not> nullAttempt (net j)" unfolding j_def using ex by (rule LeastI_ex)
  have before: "\<forall>i<j. nullAttempt (net i)"
    unfolding j_def using not_less_Least by blast
  obtain v where v: "net j = Resolved v" "v \<noteq> JNull"
    using j not_nullAttempt by blast
  from fiftyone_returns [of j net v] before v assms have "r = v" "n = Suc j" by simp_all
  then show ?thesis using v before by blast
qed

text \<open>
  C8: the \<open>fiftyone\<close> projection fetches again, after a timeout of 2000 ms, for as long
  as the response is null (the fetch threw or its body was \<open>null\<close>), without a cap:
  if the first non-null response comes at attempt \<open>k\<close> (counted from 0), it returns
  that response after \<open>k + 1\<close> fetches and \<open>k\<close> timeouts (one more if the response
  is falsy); if every attempt leaves the response null it never returns; and whatever it
  returns is a non-null response of the attempt it stopped at, all attempts before being
  null.
\<close>

theorem fiftyone_polls_until_non_null:
  "((\<forall>i<k. nullAttempt (net i)) \<and> net k = Resolved v \<and> v \<noteq> JNull \<longrightarrow>
      fiftyone net = Some (v, Suc k, 2000 * k + (if truthy v then 0 else 2000))) \<and>
   ((\<forall>i. nullAttempt (net i)) \<longrightarrow> fiftyone net = None) \<and>
   (\<forall>r n w. fiftyone net = Some (r, n, w) \<longrightarrow>
      r \<noteq> JNull \<and> (\<exists>j. n = Suc j \<and> net j = Resolved r \<and> (\<forall>i<j. nullAttempt (net i))))"
  using fiftyone_returns [of k net v] fiftyone_never [of net] fiftyone_returned [of net]
  by blast

text \<open>
  C8 on two networks: one whose third fetch is the first to bring a body, and one on
  which every fetch throws.
\<close>

theorem fiftyone_polls_until_non_null_witness:
  "fiftyone thirdTime = Some (JObj [(''teams'', JObj [])], 3, 4000) \<and>
   fiftyone (\<lambda>i. Rejected) = None"
proof -
  have a: "\<forall>i<2. nullAttempt (thirdTime i)" by (simp add: nullAttempt_def thirdTime_def)
  have b: "thirdTime 2 = Resolved (JObj [(''teams'', JObj [])])" by (simp add: thirdTime_def)
  have c: "\<forall>i. nullAttempt ((\<lambda>i. Rejected) i)" by (simp add: nullAttempt_def)
  from fiftyone_polls_until_non_null [of 2 thirdTime "JObj [(''teams'', JObj [])]"] a b
  have "fiftyone thirdTime = Some (JObj [(''teams'', JObj [])], 3, 4000)" by simp
  moreover from fiftyone_polls_until_non_null [of 0 "\<lambda>i. Rejected" JNull] c
  have "fiftyone (\<lambda>i. Rejected) = None" by blast
  ultimately show ?thesis by blast
qed

section \<open>Properties of session sync\<close>

text \<open>
  C7: for every response of the commit mutation, the success handler commits exactly one
  snapshot: the current one with \<open>view\<close> and \<open>viewCls\<close> set to the values of the
  response and \<open>sampleFields\<close> and \<open>frameFields\<close> set to the response's schemas passed
  through \<open>collapseFields\<close>, every other field as it was. What readers can observe
  afterwards is that snapshot and what they could observe before: every observable
  snapshot is an earlier one or has all four fields updated, none has only some of them.
\<close>

theorem onCompleted_atomic_frame:
  "current (onCompleted collapseFields (SetViewResponse v (ResponseDataset vc ff sf)) st) =
     (current st)\<lparr>view := v, viewCls := vc, sampleFields := collapseFields sf,
                  frameFields := collapseFields ff\<rparr> \<and>
   observable (onCompleted collapseFields (SetViewResponse v (ResponseDataset vc ff sf)) st) =
     (current st)\<lparr>view := v, viewCls := vc, sampleFields := collapseFields sf,
                  frameFields := collapseFields ff\<rparr> # observable st \<and>
   (\<forall>s \<in> set (observable
                (onCompleted collapseFields (SetViewResponse v (ResponseDataset vc ff sf)) st)).
      s \<in> set (observable st) \<or>
      (view s = v \<and> viewCls s = vc \<and> sampleFields s = collapseFields sf \<and>
       frameFields s = collapseFields ff))"
  by (simp add: onCompleted_def transaction_def commitSnapshot_def observable_def
      setter_writes_def)

text \<open>
  C7 on the example store: one snapshot is added to the two readers could observe, and
  it has the four fields of the response.
\<close>

theorem onCompleted_atomic_frame_witness:
  "observable (onCompleted (\<lambda>j. JArr [j]) exampleResponse exampleStore) =
     [exampleSnapshot\<lparr>view := JArr [JStr ''Limit''],
        viewCls := JStr ''fiftyone.core.view.DatasetView'',
        sampleFields := JArr [JArr [JStr ''filepath'']],
        frameFields := JArr [JArr [JStr ''frames'']]\<rparr>,
      exampleSnapshot,
      exampleSnapshot\<lparr>stateDescription := None\<rparr>]"
  using onCompleted_atomic_frame [of "\<lambda>j. JArr [j]" "JArr [JStr ''Limit'']"
      "JStr ''fiftyone.core.view.DatasetView''" "JArr [JStr ''frames'']"
      "JArr [JStr ''filepath'']" exampleStore]
  by (simp add: exampleResponse_def exampleStore_def observable_def)

end
